theory Spec2Isabelle
  imports Main
begin

section \<open>Activation views of the EDA server\<close>

text \<open>
  A shallow embedding of \<^verbatim>\<open>src/aap_eda/api/views/activation.py\<close>: the conflict
  resolver \<^verbatim>\<open>handle_activation_create_conflict\<close> and the request handlers of
  \<^verbatim>\<open>ActivationViewSet\<close>. The storage is a record of tables, the task queue a
  chronological trace of effects, and every exception a value.
\<close>

subsection \<open>Data model\<close>

text \<open>
  Modelled from the spec: the enumeration \<^verbatim>\<open>ActivationStatus\<close> is declared in
  \<^verbatim>\<open>aap_eda.core.enums\<close>; its members are those listed in the data model of the
  specification. The view names the five members of the busy list of \<^verbatim>\<open>enable\<close>.
\<close>

datatype ActivationStatus =
  PENDING | STARTING | RUNNING | STOPPING | STOPPED | FAILED | COMPLETED
  | UNRESPONSIVE | ERROR

text \<open>
  One entry of \<^verbatim>\<open>ruleset_stats\<close> is a dictionary read at the keys
  \<^verbatim>\<open>"numberOfRules"\<close> and \<^verbatim>\<open>"rulesTriggered"\<close>; the whole field is a
  dictionary, kept here as the list of its items in iteration order.
\<close>

type_synonym ruleset_stat = "string \<rightharpoonup> int"

text \<open>
  The columns of an Activation that the views read or write; \<open>id'\<close> is the attribute
  \<^verbatim>\<open>id\<close>, and a job handle stands for the \<^verbatim>\<open>job.id\<close> of the queue. The value of the
  bookkeeping timestamp \<^verbatim>\<open>modified_at\<close> is left out (it is wall-clock time); the
  column appears only as a name in the \<^verbatim>\<open>update_fields\<close> of a save.
\<close>

record activation =
  id' :: int
  name :: string
  is_enabled :: bool
  status :: ActivationStatus
  failure_count :: int
  restart_count :: int
  current_job_id :: "nat option"
  decision_environment_id :: "int option"
  project_id :: "int option"
  rulebook_id :: "int option"
  extra_var_id :: "int option"
  ruleset_stats :: "(string \<times> ruleset_stat) list"

record activation_instance =
  instance_id :: int
  instance_activation_id :: int
  instance_status :: ActivationStatus
  started_at :: nat

text \<open>A row of one of the four referenced tables (project, rulebook, ...).\<close>

record dependent_object =
  pk :: int
  title :: string

text \<open>
  The storage. Every table is the list of its rows in the order in which a queryset
  over it yields them.
\<close>

record database =
  activations :: "activation list"
  activation_instances :: "activation_instance list"
  decision_environments :: "dependent_object list"
  projects :: "dependent_object list"
  rulebooks :: "dependent_object list"
  extra_vars :: "dependent_object list"

text \<open>The validated fields of a create request that the conflict resolver reads.\<close>

record validated_data =
  vd_name :: string
  vd_is_enabled :: bool
  vd_decision_environment_id :: "int option"
  vd_project_id :: "int option"
  vd_rulebook_id :: "int option"
  vd_extra_var_id :: "int option"

text \<open>The exceptions the views raise or let through.\<close>

datatype api_exc =
  ValidationError
  | Unprocessable string
  | HttpForbidden string
  | Http404
  | DoesNotExist
  | KeyError string
  | DatabaseError

text \<open>
  Modelled from the spec: the status codes of the exception classes are declared in
  \<^verbatim>\<open>aap_eda.api.exceptions\<close> and in the framework; the error taxonomy of the
  specification gives 422, 403 and 404. The remaining exceptions are not handled by the
  views and surface as a server error.
\<close>

fun status_code_of :: "api_exc \<Rightarrow> nat" where
  "status_code_of ValidationError = 400"
| "status_code_of (Unprocessable _) = 422"
| "status_code_of (HttpForbidden _) = 403"
| "status_code_of Http404 = 404"
| "status_code_of DoesNotExist = 500"
| "status_code_of (KeyError _) = 500"
| "status_code_of DatabaseError = 500"

subsection \<open>Strings\<close>

text \<open>Python's \<^verbatim>\<open>str\<close> of an integer: decimal digits, with a minus sign below zero.\<close>

definition digit_char :: "nat \<Rightarrow> char" where
  "digit_char d = char_of (48 + d)"

function str_nat :: "nat \<Rightarrow> string" where
  "str_nat n = (if n < 10 then [digit_char n] else str_nat (n div 10) @ [digit_char (n mod 10)])"
  by pat_completeness auto
termination
  by (relation "measure (\<lambda>n. n)") auto

declare str_nat.simps [simp del]

definition str_int :: "int \<Rightarrow> string" where
  "str_int i = (if i < 0 then CHR ''-'' # str_nat (nat (- i)) else str_nat (nat i))"

text \<open>
  Python's \<^verbatim>\<open>str.capitalize\<close> on ASCII text: the first character in upper case, the
  others in lower case.
\<close>

definition upper_char :: "char \<Rightarrow> char" where
  "upper_char c =
     (let n = (of_char c :: nat) in if 97 \<le> n \<and> n \<le> 122 then char_of (n - 32) else c)"

definition lower_char :: "char \<Rightarrow> char" where
  "lower_char c =
     (let n = (of_char c :: nat) in if 65 \<le> n \<and> n \<le> 90 then char_of (n + 32) else c)"

fun capitalize :: "string \<Rightarrow> string" where
  "capitalize [] = []"
| "capitalize (c # cs) = upper_char c # map lower_char cs"

subsection \<open>Queries\<close>

text \<open>\<^verbatim>\<open>Model.objects.filter(pk=object_id).exists()\<close>\<close>

definition pk_exists :: "dependent_object list \<Rightarrow> int \<Rightarrow> bool" where
  "pk_exists table object_id = (find (\<lambda>row. pk row = object_id) table \<noteq> None)"

text \<open>\<^verbatim>\<open>Model.objects.get(pk=object_id)\<close>, which raises when no row matches.\<close>

definition objects_get :: "dependent_object list \<Rightarrow> int \<Rightarrow> api_exc + dependent_object" where
  "objects_get table object_id =
     (case find (\<lambda>row. pk row = object_id) table of
        None \<Rightarrow> Inl DoesNotExist
      | Some row \<Rightarrow> Inr row)"

subsection \<open>The conflict resolver\<close>

text \<open>
  \<^verbatim>\<open>handle_activation_create_conflict\<close> never returns: it walks the list of
  (table, name, id) triples and raises at the first id that is given and has no row, and
  raises the generic error after the loop. The model returns the exception raised.
\<close>

definition activation_dependent_objects ::
  "database \<Rightarrow> validated_data \<Rightarrow> (dependent_object list \<times> string \<times> int option) list" where
  "activation_dependent_objects d activation =
     [(decision_environments d, ''decision_environment'', vd_decision_environment_id activation),
      (projects d, ''project'', vd_project_id activation),
      (rulebooks d, ''rulebook'', vd_rulebook_id activation),
      (extra_vars d, ''extra_var'', vd_extra_var_id activation)]"

fun conflict_loop :: "(dependent_object list \<times> string \<times> int option) list \<Rightarrow> api_exc" where
  "conflict_loop [] = Unprocessable ''Integrity error.''"
| "conflict_loop ((object_model, object_name, None) # rest) = conflict_loop rest"
| "conflict_loop ((object_model, object_name, Some object_id) # rest) =
     (if \<not> pk_exists object_model object_id
      then Unprocessable (capitalize object_name @ '' with ID='' @ str_int object_id
                          @ '' does not exist.'')
      else conflict_loop rest)"

definition handle_activation_create_conflict :: "database \<Rightarrow> validated_data \<Rightarrow> api_exc" where
  "handle_activation_create_conflict d activation =
     conflict_loop (activation_dependent_objects d activation)"

subsection \<open>Settings, task queue and state\<close>

text \<open>
  The three settings the views pass to the tasks; \<^verbatim>\<open>settings/default.py\<close> gives
  their defaults.
\<close>

record settings =
  DEPLOYMENT_TYPE :: string
  WEBSOCKET_BASE_URL :: string
  WEBSOCKET_SSL_VERIFY :: string

definition default_settings :: settings where
  "default_settings =
     \<lparr>DEPLOYMENT_TYPE = ''local'', WEBSOCKET_BASE_URL = ''ws://localhost:8000'',
      WEBSOCKET_SSL_VERIFY = ''yes''\<rparr>"

text \<open>
  The three tasks of \<^verbatim>\<open>aap_eda.tasks.ruleset\<close> that the views enqueue, with the
  arguments given to \<^verbatim>\<open>delay\<close>:
  \<^verbatim>\<open>activate_rulesets(is_restart, activation_id, deployment_type, ws_base_url, ssl_verify)\<close>,
  \<^verbatim>\<open>deactivate_rulesets(activation_instance_id, deployment_type)\<close> and
  \<^verbatim>\<open>deactivate(activation_id)\<close>.
\<close>

datatype job =
  ActivateRulesets bool int string string string
  | DeactivateRulesets int string
  | Deactivate int

text \<open>The names that occur in the \<^verbatim>\<open>update_fields\<close> of a save.\<close>

datatype field =
  Is_enabled | Failure_count | Status | Modified_at | Current_job_id | Restart_count

text \<open>
  The effects of a handler in the order in which it performs them: a save of some fields
  of an Activation, a job handed to the queue together with the handle the queue gave
  back, the removal of an Activation.
\<close>

datatype event =
  Saved int "field list"
  | Dispatched nat job
  | Deleted int

record state =
  db :: database
  trace :: "event list"
  next_job_id :: nat

text \<open>
  Modelled from the spec: the queue is an external collaborator,
  \<^verbatim>\<open>submit(jobKind, params) -> jobHandle\<close>, non-blocking. \<^verbatim>\<open>delay\<close> records the
  job and returns a fresh handle.
\<close>

definition delay :: "job \<Rightarrow> state \<Rightarrow> nat \<times> state" where
  "delay j s =
     (next_job_id s,
      s\<lparr>trace := trace s @ [Dispatched (next_job_id s) j],
        next_job_id := Suc (next_job_id s)\<rparr>)"

text \<open>The jobs of a trace, in the order of their dispatch.\<close>

fun jobs_of :: "event list \<Rightarrow> job list" where
  "jobs_of [] = []"
| "jobs_of (Dispatched h j # es) = j # jobs_of es"
| "jobs_of (e # es) = jobs_of es"

subsection \<open>Reading and writing Activations\<close>

definition find_activation :: "database \<Rightarrow> int \<Rightarrow> activation option" where
  "find_activation d k = find (\<lambda>row. id' row = k) (activations d)"

text \<open>\<^verbatim>\<open>get_object_or_404(models.Activation, pk=pk)\<close>\<close>

definition get_object_or_404 :: "state \<Rightarrow> int \<Rightarrow> api_exc + activation" where
  "get_object_or_404 s k =
     (case find_activation (db s) k of None \<Rightarrow> Inl Http404 | Some a \<Rightarrow> Inr a)"

text \<open>
  \<^verbatim>\<open>activation.save(update_fields=[...])\<close> writes the named attributes of the object
  in memory onto its row and leaves the other columns of the row as they are; it raises
  when no row has the object's primary key.
\<close>

fun write_field :: "activation \<Rightarrow> field \<Rightarrow> activation \<Rightarrow> activation" where
  "write_field obj Is_enabled row = row\<lparr>is_enabled := is_enabled obj\<rparr>"
| "write_field obj Failure_count row = row\<lparr>failure_count := failure_count obj\<rparr>"
| "write_field obj Status row = row\<lparr>status := status obj\<rparr>"
| "write_field obj Modified_at row = row"
| "write_field obj Current_job_id row = row\<lparr>current_job_id := current_job_id obj\<rparr>"
| "write_field obj Restart_count row = row\<lparr>restart_count := restart_count obj\<rparr>"

definition update_row :: "activation \<Rightarrow> field list \<Rightarrow> activation \<Rightarrow> activation" where
  "update_row obj update_fields row =
     (if id' row = id' obj then fold (write_field obj) update_fields row else row)"

definition save :: "activation \<Rightarrow> field list \<Rightarrow> state \<Rightarrow> api_exc + state" where
  "save obj update_fields s =
     (case find_activation (db s) (id' obj) of
        None \<Rightarrow> Inl DatabaseError
      | Some _ \<Rightarrow>
          Inr (s\<lparr>db := (db s)\<lparr>activations :=
                        map (update_row obj update_fields) (activations (db s))\<rparr>,
                 trace := trace s @ [Saved (id' obj) update_fields]\<rparr>))"

text \<open>
  Modelled from the spec: the deletion of the model instance is the framework's
  \<^verbatim>\<open>instance.delete()\<close>, and the foreign key of the instances is declared in
  \<^verbatim>\<open>aap_eda.core.models\<close>; by the ownership rule of the specification, deleting an
  Activation removes its instances.
\<close>

definition delete_activation :: "activation \<Rightarrow> state \<Rightarrow> state" where
  "delete_activation obj s =
     s\<lparr>db := (db s)\<lparr>activations := filter (\<lambda>row. id' row \<noteq> id' obj) (activations (db s)),
                     activation_instances :=
                       filter (\<lambda>i. instance_activation_id i \<noteq> id' obj)
                         (activation_instances (db s))\<rparr>,
       trace := trace s @ [Deleted (id' obj)]\<rparr>"

subsection \<open>Enrichment of a read\<close>

record dependent_objects =
  serialized :: activation
  project :: "dependent_object option"
  decision_environment :: "dependent_object option"
  rulebook :: "dependent_object option"
  extra_var :: "dependent_object option"
  instances :: "activation_instance list"
  restarted_at :: "nat option"

record activation_read =
  objects :: dependent_objects
  rules_count :: int
  rules_fired_count :: int

datatype response = Response nat "activation_read option"

fun status_code :: "response \<Rightarrow> nat" where
  "status_code (Response c b) = c"

fun body :: "response \<Rightarrow> activation_read option" where
  "body (Response c b) = b"

text \<open>
  \<^verbatim>\<open>Model.objects.get(pk=x) if x else None\<close>: an id that is \<^verbatim>\<open>None\<close> or 0 is
  false and is not looked up.
\<close>

definition get_if :: "dependent_object list \<Rightarrow> int option \<Rightarrow> api_exc + dependent_object option" where
  "get_if table object_id =
     (case object_id of
        None \<Rightarrow> Inr None
      | Some i \<Rightarrow>
          if i = 0 then Inr None
          else (case objects_get table i of Inl e \<Rightarrow> Inl e | Inr row \<Rightarrow> Inr (Some row)))"

text \<open>\<^verbatim>\<open>instances.latest("started_at").started_at if instances else None\<close>\<close>

definition latest_started_at :: "activation_instance list \<Rightarrow> nat option" where
  "latest_started_at is =
     (case is of [] \<Rightarrow> None | i # rest \<Rightarrow> Some (fold max (map started_at rest) (started_at i)))"

definition get_activation_dependent_objects ::
  "database \<Rightarrow> activation \<Rightarrow> api_exc + dependent_objects" where
  "get_activation_dependent_objects d activation =
     (case get_if (projects d) (project_id activation) of
        Inl e \<Rightarrow> Inl e
      | Inr p \<Rightarrow>
     (case get_if (decision_environments d) (decision_environment_id activation) of
        Inl e \<Rightarrow> Inl e
      | Inr de \<Rightarrow>
     (case get_if (rulebooks d) (rulebook_id activation) of
        Inl e \<Rightarrow> Inl e
      | Inr rb \<Rightarrow>
     (case get_if (extra_vars d) (extra_var_id activation) of
        Inl e \<Rightarrow> Inl e
      | Inr ev \<Rightarrow>
          let activation_instances =
                filter (\<lambda>i. instance_activation_id i = id' activation) (activation_instances d)
          in Inr \<lparr>serialized = activation, project = p, decision_environment = de,
                  rulebook = rb, extra_var = ev, instances = activation_instances,
                  restarted_at = latest_started_at activation_instances\<rparr>))))"

text \<open>
  \<^verbatim>\<open>_get_rules_count\<close>: two accumulators over the values of the dictionary; reading
  a key that an entry lacks raises.
\<close>

fun rules_count_loop :: "ruleset_stat list \<Rightarrow> int \<Rightarrow> int \<Rightarrow> api_exc + int \<times> int" where
  "rules_count_loop [] rc rfc = Inr (rc, rfc)"
| "rules_count_loop (ruleset_stat # rest) rc rfc =
     (case ruleset_stat ''numberOfRules'' of
        None \<Rightarrow> Inl (KeyError ''numberOfRules'')
      | Some n \<Rightarrow>
          (case ruleset_stat ''rulesTriggered'' of
             None \<Rightarrow> Inl (KeyError ''rulesTriggered'')
           | Some t \<Rightarrow> rules_count_loop rest (rc + n) (rfc + t)))"

definition get_rules_count :: "(string \<times> ruleset_stat) list \<Rightarrow> api_exc + int \<times> int" where
  "get_rules_count stats = rules_count_loop (map snd stats) 0 0"

subsection \<open>The request handlers\<close>

text \<open>
  \<^verbatim>\<open>create\<close>. The create serializer lives in \<^verbatim>\<open>aap_eda.api.serializers.activation\<close>
  and is a parameter here: \<open>is_valid\<close> gives the validated data or nothing when validation
  raises, and \<open>serializer_create\<close> persists the Activation and returns it, or gives nothing
  when the storage raises \<^verbatim>\<open>IntegrityError\<close>. Neither reaches the task queue.
\<close>

definition create ::
  "('r \<Rightarrow> validated_data option) \<Rightarrow>
   (database \<Rightarrow> validated_data \<Rightarrow> 'u \<Rightarrow> (database \<times> activation) option) \<Rightarrow>
   settings \<Rightarrow> state \<Rightarrow> 'r \<Rightarrow> 'u \<Rightarrow> (api_exc + response) \<times> state" where
  "create is_valid serializer_create cfg s request_data user =
     (case is_valid request_data of
        None \<Rightarrow> (Inl ValidationError, s)
      | Some validated \<Rightarrow>
          (case serializer_create (db s) validated user of
             None \<Rightarrow> (Inl (handle_activation_create_conflict (db s) validated), s)
           | Some (d, response) \<Rightarrow>
               let s1 = s\<lparr>db := d\<rparr> in
               (case get_activation_dependent_objects d response of
                  Inl e \<Rightarrow> (Inl e, s1)
                | Inr activation \<Rightarrow>
                    let read = \<lparr>objects = activation, rules_count = 0, rules_fired_count = 0\<rparr>;
                        s2 = (if is_enabled response
                              then snd (delay (ActivateRulesets False (id' response)
                                          (DEPLOYMENT_TYPE cfg) (WEBSOCKET_BASE_URL cfg)
                                          (WEBSOCKET_SSL_VERIFY cfg)) s1)
                              else s1)
                    in (Inr (Response 201 (Some read)), s2))))"

text \<open>\<^verbatim>\<open>retrieve\<close> reads only.\<close>

definition retrieve :: "state \<Rightarrow> int \<Rightarrow> api_exc + response" where
  "retrieve s k =
     (case get_object_or_404 s k of
        Inl e \<Rightarrow> Inl e
      | Inr a \<Rightarrow>
          (case get_activation_dependent_objects (db s) a of
             Inl e \<Rightarrow> Inl e
           | Inr activation \<Rightarrow>
               (case get_rules_count (ruleset_stats (serialized activation)) of
                  Inl e \<Rightarrow> Inl e
                | Inr (rc, rfc) \<Rightarrow>
                    Inr (Response 200
                      (Some \<lparr>objects = activation, rules_count = rc,
                             rules_fired_count = rfc\<rparr>)))))"

text \<open>\<^verbatim>\<open>perform_destroy\<close>, and the framework's \<^verbatim>\<open>destroy\<close> that calls it.\<close>

definition perform_destroy :: "settings \<Rightarrow> activation \<Rightarrow> state \<Rightarrow> state" where
  "perform_destroy cfg activation s =
     (let instances = filter (\<lambda>i. instance_activation_id i = id' activation)
                        (activation_instances (db s));
          s1 = fold (\<lambda>instance st.
                        snd (delay (DeactivateRulesets (instance_id instance)
                                      (DEPLOYMENT_TYPE cfg)) st))
                 instances s
      in delete_activation activation s1)"

definition destroy :: "settings \<Rightarrow> state \<Rightarrow> int \<Rightarrow> (api_exc + response) \<times> state" where
  "destroy cfg s k =
     (case get_object_or_404 s k of
        Inl e \<Rightarrow> (Inl e, s)
      | Inr activation \<Rightarrow> (Inr (Response 204 None), perform_destroy cfg activation s))"

text \<open>
  \<^verbatim>\<open>enable\<close>: the guard for an Activation that is enabled already, the list of
  statuses that give 409, then two saves around the dispatch.
\<close>

definition enable :: "settings \<Rightarrow> state \<Rightarrow> int \<Rightarrow> (api_exc + response) \<times> state" where
  "enable cfg s k =
     (case get_object_or_404 s k of
        Inl e \<Rightarrow> (Inl e, s)
      | Inr activation \<Rightarrow>
          if is_enabled activation then (Inr (Response 204 None), s)
          else if status activation \<in> set [STARTING, STOPPING, PENDING, RUNNING, UNRESPONSIVE]
          then (Inr (Response 409 None), s)
          else
            let activation = activation\<lparr>is_enabled := True, failure_count := 0,
                                        status := PENDING\<rparr>
            in (case save activation [Is_enabled, Failure_count, Status, Modified_at] s of
                  Inl e \<Rightarrow> (Inl e, s)
                | Inr s1 \<Rightarrow>
                    (case delay (ActivateRulesets False k (DEPLOYMENT_TYPE cfg)
                                   (WEBSOCKET_BASE_URL cfg) (WEBSOCKET_SSL_VERIFY cfg)) s1 of
                       (job, s2) \<Rightarrow>
                         let activation = activation\<lparr>current_job_id := Some job\<rparr>
                         in (case save activation [Current_job_id] s2 of
                               Inl e \<Rightarrow> (Inl e, s2)
                             | Inr s3 \<Rightarrow> (Inr (Response 204 None), s3)))))"

text \<open>\<^verbatim>\<open>disable\<close> enqueues the task \<^verbatim>\<open>deactivate\<close> with the id of the Activation.\<close>

definition disable :: "state \<Rightarrow> int \<Rightarrow> (api_exc + response) \<times> state" where
  "disable s k =
     (case get_object_or_404 s k of
        Inl e \<Rightarrow> (Inl e, s)
      | Inr activation \<Rightarrow>
          if is_enabled activation then
            let activation = activation\<lparr>status := STOPPING, is_enabled := False\<rparr>
            in (case save activation [Is_enabled, Status, Modified_at] s of
                  Inl e \<Rightarrow> (Inl e, s)
                | Inr s1 \<Rightarrow>
                    (Inr (Response 204 None), snd (delay (Deactivate (id' activation)) s1)))
          else (Inr (Response 204 None), s))"

text \<open>
  \<^verbatim>\<open>restart\<close>. The queryset method \<^verbatim>\<open>first\<close> gives the first RUNNING instance
  of the Activation in the order of the queryset, or nothing.
\<close>

definition restart :: "settings \<Rightarrow> state \<Rightarrow> int \<Rightarrow> (api_exc + response) \<times> state" where
  "restart cfg s k =
     (case get_object_or_404 s k of
        Inl e \<Rightarrow> (Inl e, s)
      | Inr activation \<Rightarrow>
          if \<not> is_enabled activation
          then (Inl (HttpForbidden ''Activation is disabled and cannot be run.''), s)
          else
            let instance_running =
                  find (\<lambda>i. instance_activation_id i = k \<and> instance_status i = RUNNING)
                    (activation_instances (db s));
                s1 = (case instance_running of
                        None \<Rightarrow> s
                      | Some i \<Rightarrow>
                          snd (delay (DeactivateRulesets (instance_id i)
                                        (DEPLOYMENT_TYPE cfg)) s));
                s2 = snd (delay (ActivateRulesets False k (DEPLOYMENT_TYPE cfg)
                                   (WEBSOCKET_BASE_URL cfg) (WEBSOCKET_SSL_VERIFY cfg)) s1);
                activation = activation\<lparr>restart_count := restart_count activation + 1\<rparr>
            in (case save activation [Restart_count, Modified_at] s2 of
                  Inl e \<Rightarrow> (Inl e, s2)
                | Inr s3 \<Rightarrow> (Inr (Response 204 None), s3)))"

subsection \<open>Notions used in the statements\<close>

text \<open>A referenced id passes the check when it is absent or has a row.\<close>

definition reference_ok :: "dependent_object list \<Rightarrow> int option \<Rightarrow> bool" where
  "reference_ok table object_id =
     (case object_id of None \<Rightarrow> True | Some i \<Rightarrow> pk_exists table i)"

text \<open>The message of the resolver for a capitalised entity name and an id.\<close>

definition does_not_exist :: "string \<Rightarrow> int \<Rightarrow> api_exc" where
  "does_not_exist entity i =
     Unprocessable (entity @ '' with ID='' @ str_int i @ '' does not exist.'')"

text \<open>
  The lookups of the enrichment do not raise: every reference of the Activation is
  absent, 0, or the primary key of a row.
\<close>

definition resolves :: "dependent_object list \<Rightarrow> int option \<Rightarrow> bool" where
  "resolves table object_id = (case get_if table object_id of Inl e \<Rightarrow> False | Inr r \<Rightarrow> True)"

definition references_resolve :: "database \<Rightarrow> activation \<Rightarrow> bool" where
  "references_resolve d row \<longleftrightarrow>
     resolves (projects d) (project_id row) \<and>
     resolves (decision_environments d) (decision_environment_id row) \<and>
     resolves (rulebooks d) (rulebook_id row) \<and>
     resolves (extra_vars d) (extra_var_id row)"

text \<open>The instances of an Activation, and those of them that are running.\<close>

definition owned_instances :: "database \<Rightarrow> int \<Rightarrow> activation_instance list" where
  "owned_instances d k = filter (\<lambda>i. instance_activation_id i = k) (activation_instances d)"

definition running_instances :: "database \<Rightarrow> int \<Rightarrow> activation_instance list" where
  "running_instances d k =
     filter (\<lambda>i. instance_activation_id i = k \<and> instance_status i = RUNNING)
       (activation_instances d)"

text \<open>A change applied to every row that has the given primary key.\<close>

definition set_rows :: "int \<Rightarrow> (activation \<Rightarrow> activation) \<Rightarrow> database \<Rightarrow> database" where
  "set_rows k f d = d\<lparr>activations := map (\<lambda>row. if id' row = k then f row else row) (activations d)\<rparr>"

text \<open>The activate job that create, enable and restart hand to the queue.\<close>

definition activate_job :: "settings \<Rightarrow> int \<Rightarrow> job" where
  "activate_job cfg k =
     ActivateRulesets False k (DEPLOYMENT_TYPE cfg) (WEBSOCKET_BASE_URL cfg)
       (WEBSOCKET_SSL_VERIFY cfg)"

fun is_deactivate :: "job \<Rightarrow> bool" where
  "is_deactivate (DeactivateRulesets i t) = True"
| "is_deactivate (Deactivate k) = True"
| "is_deactivate (ActivateRulesets r k t u v) = False"

subsection \<open>Sample data\<close>

text \<open>
  One Activation (disabled and stopped, waiting in a transition, or enabled), four
  instances of which three belong to it, and one row in each referenced table.
\<close>

definition idle_activation :: activation where
  "idle_activation =
     \<lparr>id' = 1, name = ''a1'', is_enabled = False, status = STOPPED, failure_count = 3,
      restart_count = 0, current_job_id = None, decision_environment_id = Some 1,
      project_id = None, rulebook_id = Some 2, extra_var_id = None,
      ruleset_stats = [(''rs1'', [''numberOfRules'' \<mapsto> 3, ''rulesTriggered'' \<mapsto> 1]),
                       (''rs2'', [''numberOfRules'' \<mapsto> 4, ''rulesTriggered'' \<mapsto> 0])]\<rparr>"

definition busy_activation :: activation where
  "busy_activation = idle_activation\<lparr>status := STOPPING\<rparr>"

definition enabled_activation :: activation where
  "enabled_activation = idle_activation\<lparr>is_enabled := True, status := FAILED\<rparr>"

definition instance_10 :: activation_instance where
  "instance_10 = \<lparr>instance_id = 10, instance_activation_id = 1, instance_status = RUNNING,
                   started_at = 5\<rparr>"

definition instance_11 :: activation_instance where
  "instance_11 = \<lparr>instance_id = 11, instance_activation_id = 1, instance_status = STOPPED,
                   started_at = 2\<rparr>"

definition instance_12 :: activation_instance where
  "instance_12 = \<lparr>instance_id = 12, instance_activation_id = 1, instance_status = RUNNING,
                   started_at = 7\<rparr>"

definition instance_13 :: activation_instance where
  "instance_13 = \<lparr>instance_id = 13, instance_activation_id = 2, instance_status = RUNNING,
                   started_at = 9\<rparr>"

definition example_db :: "activation \<Rightarrow> activation_instance list \<Rightarrow> database" where
  "example_db a is =
     \<lparr>activations = [a], activation_instances = is,
      decision_environments = [\<lparr>pk = 1, title = ''de''\<rparr>],
      projects = [\<lparr>pk = 4, title = ''pr''\<rparr>],
      rulebooks = [\<lparr>pk = 2, title = ''rb''\<rparr>],
      extra_vars = [\<lparr>pk = 6, title = ''ev''\<rparr>]\<rparr>"

definition example_state :: "activation \<Rightarrow> activation_instance list \<Rightarrow> state" where
  "example_state a is = \<lparr>db = example_db a is, trace = [], next_job_id = 0\<rparr>"

definition example_request ::
  "bool \<Rightarrow> int option \<Rightarrow> int option \<Rightarrow> int option \<Rightarrow> int option \<Rightarrow> validated_data" where
  "example_request en de p rb ev =
     \<lparr>vd_name = ''new'', vd_is_enabled = en, vd_decision_environment_id = de,
      vd_project_id = p, vd_rulebook_id = rb, vd_extra_var_id = ev\<rparr>"

text \<open>
  Modelled from the spec: the create serializer is defined in
  \<^verbatim>\<open>aap_eda.api.serializers.activation\<close>. By the specification, create lets the
  storage reject a reference to a missing entity and otherwise persists the Activation
  with status PENDING; the new row takes the next free primary key. It is used for the
  sample runs of \<^verbatim>\<open>create\<close> only.
\<close>

definition serializer_create_model ::
  "database \<Rightarrow> validated_data \<Rightarrow> unit \<Rightarrow> (database \<times> activation) option" where
  "serializer_create_model d vd user =
     (if reference_ok (decision_environments d) (vd_decision_environment_id vd) \<and>
         reference_ok (projects d) (vd_project_id vd) \<and>
         reference_ok (rulebooks d) (vd_rulebook_id vd) \<and>
         reference_ok (extra_vars d) (vd_extra_var_id vd)
      then
        let row = \<lparr>id' = 1 + fold max (map id' (activations d)) 0, name = vd_name vd,
                   is_enabled = vd_is_enabled vd, status = PENDING, failure_count = 0,
                   restart_count = 0, current_job_id = None,
                   decision_environment_id = vd_decision_environment_id vd,
                   project_id = vd_project_id vd, rulebook_id = vd_rulebook_id vd,
                   extra_var_id = vd_extra_var_id vd, ruleset_stats = []\<rparr>
        in Some (d\<lparr>activations := activations d @ [row]\<rparr>, row)
      else None)"

lemmas example_defs =
  idle_activation_def busy_activation_def enabled_activation_def instance_10_def
  instance_11_def instance_12_def instance_13_def example_db_def example_state_def
  example_request_def default_settings_def find_activation_def running_instances_def
  owned_instances_def set_rows_def activate_job_def

subsection \<open>Saving and dispatching\<close>

lemma write_field_id: "id' (write_field obj f row) = id' row"
  by (cases f) simp_all

lemma fold_write_field_id: "id' (fold (write_field obj) fs row) = id' row"
  by (induction fs arbitrary: row) (simp_all add: write_field_id)

lemma update_row_id: "id' (update_row obj fs row) = id' row"
  by (simp add: update_row_def fold_write_field_id)

lemma update_row_fun:
  "update_row obj fs = (\<lambda>row. if id' row = id' obj then fold (write_field obj) fs row else row)"
  by (rule ext) (simp add: update_row_def)

lemma find_map_update_row:
  "find (\<lambda>row. id' row = k) (map (update_row obj fs) rows)
     = map_option (update_row obj fs) (find (\<lambda>row. id' row = k) rows)"
  by (induction rows) (simp_all add: update_row_id)

lemma find_activation_map_update:
  "find_activation (d\<lparr>activations := map (update_row obj fs) (activations d)\<rparr>) k
     = map_option (update_row obj fs) (find_activation d k)"
  by (simp add: find_activation_def find_map_update_row)

lemma find_activation_id: "find_activation d k = Some a \<Longrightarrow> id' a = k"
  by (auto simp: find_activation_def find_Some_iff)

lemma find_activation_removed:
  "find_activation (d\<lparr>activations := filter (\<lambda>row. id' row \<noteq> k) (activations d),
                       activation_instances := is\<rparr>) k = None"
  by (simp add: find_activation_def find_None_iff)

lemma save_found:
  "find_activation (db s) (id' obj) = Some a \<Longrightarrow>
   save obj fs s =
     Inr (s\<lparr>db := (db s)\<lparr>activations := map (update_row obj fs) (activations (db s))\<rparr>,
            trace := trace s @ [Saved (id' obj) fs]\<rparr>)"
  by (simp add: save_def)

lemma save_set_rows:
  assumes "find_activation (db s) k = Some a" and "id' obj = k"
  shows "save obj fs s =
           Inr \<lparr>db = set_rows k (fold (write_field obj) fs) (db s),
                trace = trace s @ [Saved k fs], next_job_id = next_job_id s\<rparr>"
  using assms by (simp add: save_def set_rows_def update_row_fun)

lemma delay_fields [simp]:
  "db (snd (delay j s)) = db s"
  "trace (snd (delay j s)) = trace s @ [Dispatched (next_job_id s) j]"
  "next_job_id (snd (delay j s)) = Suc (next_job_id s)"
  by (simp_all add: delay_def)

lemma fold_delay:
  "fold (\<lambda>i st. snd (delay (J i) st)) is s =
     s\<lparr>trace := trace s @ map (\<lambda>(h, i). Dispatched h (J i)) (enumerate (next_job_id s) is),
       next_job_id := next_job_id s + length is\<rparr>"
  by (induction "is" arbitrary: s) (simp_all add: delay_def)

lemma find_filter_hd:
  "find P xs = (case filter P xs of [] \<Rightarrow> None | x # _ \<Rightarrow> Some x)"
  by (induction xs) simp_all

lemma dependent_objects_serialized:
  "get_activation_dependent_objects d row = Inr objs \<Longrightarrow> serialized objs = row"
  by (auto simp: get_activation_dependent_objects_def Let_def split: sum.splits)

lemma references_resolve_objects:
  "references_resolve d row \<Longrightarrow> \<exists>objs. get_activation_dependent_objects d row = Inr objs"
  by (auto simp: references_resolve_def resolves_def get_activation_dependent_objects_def
      Let_def split: sum.splits)

lemma capitalize_names:
  "capitalize ''decision_environment'' = ''Decision_environment''"
  "capitalize ''project'' = ''Project''"
  "capitalize ''rulebook'' = ''Rulebook''"
  "capitalize ''extra_var'' = ''Extra_var''"
  by code_simp+

subsection \<open>Create\<close>

text \<open>
  C1. Whatever the serializer does: when create returns a response, the response is 201,
  its record is the created Activation with \<open>rules_count = 0\<close> and
  \<open>rules_fired_count = 0\<close>, and the trace grows by exactly one activate job (not a
  restart, for the id of the created record) if the created record is enabled and by
  nothing if it is not. When create raises, nothing is dispatched. Create does return a
  response whenever the serializer has persisted a record whose references resolve.
\<close>

theorem create_dispatches_iff_enabled:
  assumes "create is_valid serializer_create cfg s request_data user = (res, s')"
  shows "(\<forall>rsp. res = Inr rsp \<longrightarrow>
            (\<exists>vd d row objs.
               is_valid request_data = Some vd \<and>
               serializer_create (db s) vd user = Some (d, row) \<and>
               serialized objs = row \<and>
               rsp = Response 201
                       (Some \<lparr>objects = objs, rules_count = 0, rules_fired_count = 0\<rparr>) \<and>
               db s' = d \<and>
               trace s' = trace s @
                 (if is_enabled row
                  then [Dispatched (next_job_id s) (activate_job cfg (id' row))]
                  else [])))
       \<and> (\<forall>e. res = Inl e \<longrightarrow> trace s' = trace s)
       \<and> (\<forall>vd d row. is_valid request_data = Some vd \<and>
              serializer_create (db s) vd user = Some (d, row) \<and> references_resolve d row
            \<longrightarrow> (\<exists>rsp. res = Inr rsp))"
proof (cases "is_valid request_data")
  case None
  with assms show ?thesis by (auto simp: create_def)
next
  case valid: (Some vd)
  show ?thesis
  proof (cases "serializer_create (db s) vd user")
    case None
    with assms valid show ?thesis by (auto simp: create_def)
  next
    case (Some p)
    then obtain d row where created: "serializer_create (db s) vd user = Some (d, row)"
      by (cases p) simp
    show ?thesis
    proof (cases "get_activation_dependent_objects d row")
      case (Inl e)
      then have "\<not> references_resolve d row"
        using references_resolve_objects by fastforce
      with assms valid created Inl show ?thesis by (auto simp: create_def)
    next
      case (Inr objs)
      then have ser: "serialized objs = row" by (rule dependent_objects_serialized)
      show ?thesis
      proof (cases "is_enabled row")
        case True
        with assms valid created Inr ser show ?thesis
          by (auto simp: create_def delay_def activate_job_def)
      next
        case False
        with assms valid created Inr ser show ?thesis
          by (auto simp: create_def)
      qed
    qed
  qed
qed

text \<open>
  Three sample runs: an enabled create dispatches the activate job for the new id 2, a
  disabled create dispatches nothing, and a create with a missing rulebook raises and
  dispatches nothing.
\<close>

theorem create_dispatches_iff_enabled_witness:
  "map_option (\<lambda>(d, row). references_resolve d row)
       (serializer_create_model (example_db idle_activation [])
          (example_request True (Some 1) None (Some 2) None) ()) = Some True
   \<and> (\<exists>rsp. fst (create Some serializer_create_model default_settings
                  (example_state idle_activation [])
                  (example_request True (Some 1) None (Some 2) None) ()) = Inr rsp
          \<and> status_code rsp = 201
          \<and> map_option rules_count (body rsp) = Some 0
          \<and> map_option rules_fired_count (body rsp) = Some 0)
   \<and> trace (snd (create Some serializer_create_model default_settings
                  (example_state idle_activation [])
                  (example_request True (Some 1) None (Some 2) None) ()))
       = [Dispatched 0 (ActivateRulesets False 2 ''local'' ''ws://localhost:8000'' ''yes'')]
   \<and> (\<exists>rsp. fst (create Some serializer_create_model default_settings
                  (example_state idle_activation [])
                  (example_request False (Some 1) None (Some 2) None) ()) = Inr rsp)
   \<and> trace (snd (create Some serializer_create_model default_settings
                  (example_state idle_activation [])
                  (example_request False (Some 1) None (Some 2) None) ())) = []
   \<and> (\<exists>e. fst (create Some serializer_create_model default_settings
                  (example_state idle_activation [])
                  (example_request True (Some 1) None (Some 7) None) ()) = Inl e)
   \<and> trace (snd (create Some serializer_create_model default_settings
                  (example_state idle_activation [])
                  (example_request True (Some 1) None (Some 7) None) ())) = []"
proof -
  let ?run = "\<lambda>vd. create Some serializer_create_model default_settings
                      (example_state idle_activation []) vd ()"
  let ?on = "example_request True (Some 1) None (Some 2) None"
  let ?off = "example_request False (Some 1) None (Some 2) None"
  let ?bad = "example_request True (Some 1) None (Some 7) None"
  note ev = create_def serializer_create_model_def example_defs reference_ok_def
    pk_exists_def get_activation_dependent_objects_def get_if_def objects_get_def Let_def
    latest_started_at_def handle_activation_create_conflict_def
    activation_dependent_objects_def
  have res: "\<exists>rsp. fst (?run ?on) = Inr rsp \<and> status_code rsp = 201
               \<and> map_option rules_count (body rsp) = Some 0
               \<and> map_option rules_fired_count (body rsp) = Some 0"
    "\<exists>rsp. fst (?run ?off) = Inr rsp"
    "\<exists>e. fst (?run ?bad) = Inl e"
    by (simp_all add: ev)
  have "trace (snd (?run ?on))
          = [Dispatched 0 (ActivateRulesets False 2 ''local'' ''ws://localhost:8000'' ''yes'')]"
    using res(1) create_dispatches_iff_enabled [of Some serializer_create_model
        default_settings "example_state idle_activation []" ?on "()"
        "fst (?run ?on)" "snd (?run ?on)"]
    by (auto simp: serializer_create_model_def example_defs reference_ok_def pk_exists_def
        Let_def)
  moreover have "trace (snd (?run ?off)) = []"
    using res(2) create_dispatches_iff_enabled [of Some serializer_create_model
        default_settings "example_state idle_activation []" ?off "()"
        "fst (?run ?off)" "snd (?run ?off)"]
    by (auto simp: serializer_create_model_def example_defs reference_ok_def pk_exists_def
        Let_def)
  moreover have "trace (snd (?run ?bad)) = []"
    using res(3) create_dispatches_iff_enabled [of Some serializer_create_model
        default_settings "example_state idle_activation []" ?bad "()"
        "fst (?run ?bad)" "snd (?run ?bad)"]
    by (auto simp: example_state_def)
  moreover have "map_option (\<lambda>(d, row). references_resolve d row)
       (serializer_create_model (example_db idle_activation []) ?on ()) = Some True"
    by (simp add: serializer_create_model_def example_defs reference_ok_def pk_exists_def
        Let_def references_resolve_def resolves_def get_if_def objects_get_def)
  ultimately show ?thesis using res by simp
qed

subsection \<open>Enable\<close>

text \<open>
  C2. Enable on an Activation that is not enabled and whose status is one of STARTING,
  STOPPING, PENDING, RUNNING, UNRESPONSIVE returns the response 409 and leaves the whole
  state as it was: no row changes and the trace gets no save and no job.
\<close>

theorem enable_busy_conflict:
  assumes "find_activation (db s) k = Some a"
    and "\<not> is_enabled a"
    and "status a \<in> {STARTING, STOPPING, PENDING, RUNNING, UNRESPONSIVE}"
  shows "enable cfg s k = (Inr (Response 409 None), s)"
  using assms by (auto simp: enable_def get_object_or_404_def)

theorem enable_busy_conflict_witness:
  "find_activation (db (example_state busy_activation [])) 1 = Some busy_activation
   \<and> \<not> is_enabled busy_activation
   \<and> status busy_activation \<in> {STARTING, STOPPING, PENDING, RUNNING, UNRESPONSIVE}
   \<and> enable default_settings (example_state busy_activation []) 1
       = (Inr (Response 409 None), example_state busy_activation [])"
proof -
  have h: "find_activation (db (example_state busy_activation [])) 1 = Some busy_activation"
    "\<not> is_enabled busy_activation"
    "status busy_activation \<in> {STARTING, STOPPING, PENDING, RUNNING, UNRESPONSIVE}"
    by (simp_all add: example_defs)
  from enable_busy_conflict [OF h] h show ?thesis by simp
qed

text \<open>
  C3 as stated fails for an Activation that is already enabled: the guard at the head of
  \<^verbatim>\<open>enable\<close> returns 204 at once. Here the enabled Activation keeps its status
  FAILED and its failure count 3, and no job is dispatched.
\<close>

theorem enable_already_enabled_counterexample:
  "find_activation (db (example_state enabled_activation [])) 1 = Some enabled_activation
   \<and> is_enabled enabled_activation
   \<and> status enabled_activation = FAILED
   \<and> failure_count enabled_activation = 3
   \<and> enable default_settings (example_state enabled_activation []) 1
        = (Inr (Response 204 None), example_state enabled_activation [])
   \<and> jobs_of (trace (snd (enable default_settings (example_state enabled_activation []) 1))) = []"
  by (simp add: example_defs enable_def get_object_or_404_def)

text \<open>
  C3, amended. Enable on an Activation that is already enabled returns 204 and changes
  nothing. Enable on an Activation that is not enabled and whose status is one of STOPPED,
  FAILED, COMPLETED, ERROR returns 204 and, in this order, saves \<open>is_enabled = True\<close>,
  \<open>failure_count = 0\<close> and \<open>status = PENDING\<close>, dispatches exactly one activate job
  that is not a restart, and saves the handle of that job in \<open>current_job_id\<close>.
\<close>

theorem enable_idle_activates:
  assumes "find_activation (db s) k = Some a"
  shows "(is_enabled a \<longrightarrow> enable cfg s k = (Inr (Response 204 None), s))
       \<and> (\<not> is_enabled a \<and> status a \<in> {STOPPED, FAILED, COMPLETED, ERROR} \<longrightarrow>
            enable cfg s k =
              (Inr (Response 204 None),
               \<lparr>db = set_rows k (\<lambda>row. row\<lparr>is_enabled := True, failure_count := 0,
                                          status := PENDING,
                                          current_job_id := Some (next_job_id s)\<rparr>) (db s),
                trace = trace s @
                  [Saved k [Is_enabled, Failure_count, Status, Modified_at],
                   Dispatched (next_job_id s) (activate_job cfg k),
                   Saved k [Current_job_id]],
                next_job_id = Suc (next_job_id s)\<rparr>))"
proof (intro conjI impI)
  assume "is_enabled a"
  with assms show "enable cfg s k = (Inr (Response 204 None), s)"
    by (simp add: enable_def get_object_or_404_def)
next
  assume idle: "\<not> is_enabled a \<and> status a \<in> {STOPPED, FAILED, COMPLETED, ERROR}"
  have k: "id' a = k" using assms by (rule find_activation_id)
  let ?obj = "a\<lparr>is_enabled := True, failure_count := 0, status := PENDING\<rparr>"
  let ?fs = "[Is_enabled, Failure_count, Status, Modified_at]"
  define s1 where
    "s1 = s\<lparr>db := (db s)\<lparr>activations := map (update_row ?obj ?fs) (activations (db s))\<rparr>,
            trace := trace s @ [Saved k ?fs]\<rparr>"
  define s2 where
    "s2 = s1\<lparr>trace := trace s1 @ [Dispatched (next_job_id s1) (activate_job cfg k)],
             next_job_id := Suc (next_job_id s1)\<rparr>"
  define h where "h = next_job_id s1"
  let ?obj2 = "?obj\<lparr>current_job_id := Some h\<rparr>"
  define s3 where
    "s3 = s2\<lparr>db := (db s2)\<lparr>activations :=
                   map (update_row ?obj2 [Current_job_id]) (activations (db s2))\<rparr>,
             trace := trace s2 @ [Saved k [Current_job_id]]\<rparr>"
  have s1: "save ?obj ?fs s = Inr s1"
    using assms k save_found [of s ?obj a ?fs] by (simp add: s1_def)
  have d: "delay (ActivateRulesets False k (DEPLOYMENT_TYPE cfg) (WEBSOCKET_BASE_URL cfg)
                    (WEBSOCKET_SSL_VERIFY cfg)) s1 = (h, s2)"
    by (simp add: delay_def s2_def h_def activate_job_def)
  have "find_activation (db s2) k = Some (update_row ?obj ?fs a)"
    using assms by (simp add: s2_def s1_def find_activation_map_update)
  then have s3: "save ?obj2 [Current_job_id] s2 = Inr s3"
    using k save_found [of s2 ?obj2 "update_row ?obj ?fs a" "[Current_job_id]"]
    by (simp add: s3_def)
  have run: "enable cfg s k = (Inr (Response 204 None), s3)"
    using assms idle
    by (auto simp: enable_def get_object_or_404_def s1 d s3)
  have "s3 = \<lparr>db = set_rows k (\<lambda>row. row\<lparr>is_enabled := True, failure_count := 0,
                                          status := PENDING,
                                          current_job_id := Some (next_job_id s)\<rparr>) (db s),
                trace = trace s @
                  [Saved k [Is_enabled, Failure_count, Status, Modified_at],
                   Dispatched (next_job_id s) (activate_job cfg k),
                   Saved k [Current_job_id]],
                next_job_id = Suc (next_job_id s)\<rparr>"
    using k by (simp add: s3_def s2_def s1_def h_def set_rows_def update_row_fun o_def)
  with run show "enable cfg s k =
              (Inr (Response 204 None),
               \<lparr>db = set_rows k (\<lambda>row. row\<lparr>is_enabled := True, failure_count := 0,
                                          status := PENDING,
                                          current_job_id := Some (next_job_id s)\<rparr>) (db s),
                trace = trace s @
                  [Saved k [Is_enabled, Failure_count, Status, Modified_at],
                   Dispatched (next_job_id s) (activate_job cfg k),
                   Saved k [Current_job_id]],
                next_job_id = Suc (next_job_id s)\<rparr>)"
    by simp
qed

theorem enable_idle_activates_witness:
  "find_activation (db (example_state idle_activation [])) 1 = Some idle_activation
   \<and> \<not> is_enabled idle_activation \<and> status idle_activation = STOPPED
   \<and> enable default_settings (example_state idle_activation []) 1
       = (Inr (Response 204 None),
          \<lparr>db = example_db (idle_activation\<lparr>is_enabled := True, failure_count := 0,
                               status := PENDING, current_job_id := Some 0\<rparr>) [],
           trace = [Saved 1 [Is_enabled, Failure_count, Status, Modified_at],
                    Dispatched 0 (ActivateRulesets False 1 ''local'' ''ws://localhost:8000''
                                    ''yes''),
                    Saved 1 [Current_job_id]],
           next_job_id = 1\<rparr>)
   \<and> find_activation (db (example_state enabled_activation [])) 1 = Some enabled_activation
   \<and> is_enabled enabled_activation
   \<and> enable default_settings (example_state enabled_activation []) 1
       = (Inr (Response 204 None), example_state enabled_activation [])"
proof -
  have h: "find_activation (db (example_state idle_activation [])) 1 = Some idle_activation"
    and g: "find_activation (db (example_state enabled_activation [])) 1
              = Some enabled_activation"
    by (simp_all add: example_defs)
  from enable_idle_activates [OF h, of default_settings]
    enable_idle_activates [OF g, of default_settings] h g
  show ?thesis by (simp add: example_defs)
qed

subsection \<open>Restart\<close>

text \<open>
  C4. Restart on a disabled Activation raises HttpForbidden, whose status is 403, and
  leaves the whole state as it was: nothing is dispatched and no row changes, so
  \<open>restart_count\<close> keeps its value.
\<close>

theorem restart_disabled_forbidden:
  assumes "find_activation (db s) k = Some a"
    and "\<not> is_enabled a"
  shows "restart cfg s k = (Inl (HttpForbidden ''Activation is disabled and cannot be run.''), s)
       \<and> status_code_of (HttpForbidden ''Activation is disabled and cannot be run.'') = 403"
  using assms by (simp add: restart_def get_object_or_404_def)

theorem restart_disabled_forbidden_witness:
  "find_activation (db (example_state idle_activation [instance_10])) 1 = Some idle_activation
   \<and> \<not> is_enabled idle_activation
   \<and> restart default_settings (example_state idle_activation [instance_10]) 1
       = (Inl (HttpForbidden ''Activation is disabled and cannot be run.''),
          example_state idle_activation [instance_10])"
proof -
  have h: "find_activation (db (example_state idle_activation [instance_10])) 1
             = Some idle_activation"
    "\<not> is_enabled idle_activation"
    by (simp_all add: example_defs)
  from restart_disabled_forbidden [OF h] h show ?thesis by simp
qed

lemma restart_running:
  assumes "find_activation (db s) k = Some a" and "is_enabled a"
    and "running_instances (db s) k = i # rest"
  shows "restart cfg s k =
           (Inr (Response 204 None),
            \<lparr>db = set_rows k (\<lambda>row. row\<lparr>restart_count := restart_count a + 1\<rparr>) (db s),
             trace = trace s @
               [Dispatched (next_job_id s)
                  (DeactivateRulesets (instance_id i) (DEPLOYMENT_TYPE cfg)),
                Dispatched (Suc (next_job_id s)) (activate_job cfg k),
                Saved k [Restart_count, Modified_at]],
             next_job_id = Suc (Suc (next_job_id s))\<rparr>)"
proof -
  have k: "id' a = k" using assms(1) by (rule find_activation_id)
  have f: "find (\<lambda>i. instance_activation_id i = k \<and> instance_status i = RUNNING)
             (activation_instances (db s)) = Some i"
    using assms(3) by (simp add: find_filter_hd running_instances_def)
  define s2 where "s2 = snd (delay (activate_job cfg k)
      (snd (delay (DeactivateRulesets (instance_id i) (DEPLOYMENT_TYPE cfg)) s)))"
  have "find_activation (db s2) k = Some a"
    using assms(1) by (simp add: s2_def)
  then have sv: "save (a\<lparr>restart_count := restart_count a + 1\<rparr>) [Restart_count, Modified_at] s2
      = Inr \<lparr>db = set_rows k (fold (write_field (a\<lparr>restart_count := restart_count a + 1\<rparr>))
                                 [Restart_count, Modified_at]) (db s2),
             trace = trace s2 @ [Saved k [Restart_count, Modified_at]],
             next_job_id = next_job_id s2\<rparr>"
    using k by (intro save_set_rows) simp_all
  show ?thesis
    using assms(1,2) f
    by (simp add: restart_def get_object_or_404_def activate_job_def Let_def
        o_def sv [unfolded s2_def activate_job_def])
qed

lemma restart_idle:
  assumes "find_activation (db s) k = Some a" and "is_enabled a"
    and "running_instances (db s) k = []"
  shows "restart cfg s k =
           (Inr (Response 204 None),
            \<lparr>db = set_rows k (\<lambda>row. row\<lparr>restart_count := restart_count a + 1\<rparr>) (db s),
             trace = trace s @
               [Dispatched (next_job_id s) (activate_job cfg k),
                Saved k [Restart_count, Modified_at]],
             next_job_id = Suc (next_job_id s)\<rparr>)"
proof -
  have k: "id' a = k" using assms(1) by (rule find_activation_id)
  have f: "find (\<lambda>i. instance_activation_id i = k \<and> instance_status i = RUNNING)
             (activation_instances (db s)) = None"
    using assms(3) by (simp add: find_filter_hd running_instances_def)
  define s2 where "s2 = snd (delay (activate_job cfg k) s)"
  have "find_activation (db s2) k = Some a"
    using assms(1) by (simp add: s2_def)
  then have sv: "save (a\<lparr>restart_count := restart_count a + 1\<rparr>) [Restart_count, Modified_at] s2
      = Inr \<lparr>db = set_rows k (fold (write_field (a\<lparr>restart_count := restart_count a + 1\<rparr>))
                                 [Restart_count, Modified_at]) (db s2),
             trace = trace s2 @ [Saved k [Restart_count, Modified_at]],
             next_job_id = next_job_id s2\<rparr>"
    using k by (intro save_set_rows) simp_all
  show ?thesis
    using assms(1,2) f
    by (simp add: restart_def get_object_or_404_def activate_job_def Let_def
        o_def sv [unfolded s2_def activate_job_def])
qed

text \<open>
  C5. Restart on an enabled Activation returns 204. When some instance of the Activation
  is RUNNING, the trace grows by one deactivate job for the first such instance, then one
  activate job that is not a restart, then the save of \<open>restart_count\<close>, which is one
  more than before. When no instance is RUNNING, the trace grows by the activate job and
  the save only.
\<close>

theorem restart_enabled_dispatches:
  assumes "find_activation (db s) k = Some a" and "is_enabled a"
  shows "(\<forall>i rest. running_instances (db s) k = i # rest \<longrightarrow>
            restart cfg s k =
              (Inr (Response 204 None),
               \<lparr>db = set_rows k (\<lambda>row. row\<lparr>restart_count := restart_count a + 1\<rparr>) (db s),
                trace = trace s @
                  [Dispatched (next_job_id s)
                     (DeactivateRulesets (instance_id i) (DEPLOYMENT_TYPE cfg)),
                   Dispatched (Suc (next_job_id s)) (activate_job cfg k),
                   Saved k [Restart_count, Modified_at]],
                next_job_id = Suc (Suc (next_job_id s))\<rparr>))
       \<and> (running_instances (db s) k = [] \<longrightarrow>
            restart cfg s k =
              (Inr (Response 204 None),
               \<lparr>db = set_rows k (\<lambda>row. row\<lparr>restart_count := restart_count a + 1\<rparr>) (db s),
                trace = trace s @
                  [Dispatched (next_job_id s) (activate_job cfg k),
                   Saved k [Restart_count, Modified_at]],
                next_job_id = Suc (next_job_id s)\<rparr>))"
  using assms restart_running restart_idle by blast

theorem restart_enabled_dispatches_witness:
  "find_activation (db (example_state enabled_activation [instance_11, instance_12])) 1
     = Some enabled_activation
   \<and> is_enabled enabled_activation
   \<and> running_instances (db (example_state enabled_activation [instance_11, instance_12])) 1
       = [instance_12]
   \<and> restart default_settings (example_state enabled_activation [instance_11, instance_12]) 1
       = (Inr (Response 204 None),
          \<lparr>db = example_db (enabled_activation\<lparr>restart_count := 1\<rparr>) [instance_11, instance_12],
           trace = [Dispatched 0 (DeactivateRulesets 12 ''local''),
                    Dispatched 1 (ActivateRulesets False 1 ''local'' ''ws://localhost:8000''
                                    ''yes''),
                    Saved 1 [Restart_count, Modified_at]],
           next_job_id = 2\<rparr>)
   \<and> running_instances (db (example_state enabled_activation [instance_11, instance_13])) 1 = []
   \<and> restart default_settings (example_state enabled_activation [instance_11, instance_13]) 1
       = (Inr (Response 204 None),
          \<lparr>db = example_db (enabled_activation\<lparr>restart_count := 1\<rparr>) [instance_11, instance_13],
           trace = [Dispatched 0 (ActivateRulesets False 1 ''local'' ''ws://localhost:8000''
                                    ''yes''),
                    Saved 1 [Restart_count, Modified_at]],
           next_job_id = 1\<rparr>)"
proof -
  have h: "find_activation (db (example_state enabled_activation [instance_11, instance_12])) 1
             = Some enabled_activation"
    and g: "find_activation (db (example_state enabled_activation [instance_11, instance_13])) 1
             = Some enabled_activation"
    and e: "is_enabled enabled_activation"
    by (simp_all add: example_defs)
  have r: "running_instances (db (example_state enabled_activation [instance_11, instance_12])) 1
             = [instance_12]"
    "running_instances (db (example_state enabled_activation [instance_11, instance_13])) 1 = []"
    by (simp_all add: example_defs)
  from restart_enabled_dispatches [OF h e, of default_settings]
    restart_enabled_dispatches [OF g e, of default_settings] h e r
  show ?thesis by (simp add: example_defs)
qed

text \<open>
  C10. Restart on an enabled Activation with two or more RUNNING instances (primary keys
  of instances being distinct): among the jobs the restart adds to the trace, the only
  deactivate job is the one for the first RUNNING instance, and no deactivate job of any
  deployment type is added for any other RUNNING instance.
\<close>

theorem restart_deactivates_first_running_only:
  assumes "find_activation (db s) k = Some a" and "is_enabled a"
    and "running_instances (db s) k = i # j # rest"
    and "distinct (map instance_id (activation_instances (db s)))"
  shows "\<exists>new. trace (snd (restart cfg s k)) = trace s @ new
           \<and> filter is_deactivate (jobs_of new)
               = [DeactivateRulesets (instance_id i) (DEPLOYMENT_TYPE cfg)]
           \<and> (\<forall>i' \<in> set (j # rest). \<forall>t.
                 DeactivateRulesets (instance_id i') t \<notin> set (jobs_of new))"
proof -
  have "distinct (map instance_id (running_instances (db s) k))"
    unfolding running_instances_def using assms(4) by (rule distinct_map_filter)
  then have "instance_id i \<notin> instance_id ` set (j # rest)"
    using assms(3) by simp
  then have other: "\<forall>i' \<in> set (j # rest). instance_id i' \<noteq> instance_id i"
    by (metis imageI)
  let ?new = "[Dispatched (next_job_id s)
                  (DeactivateRulesets (instance_id i) (DEPLOYMENT_TYPE cfg)),
                Dispatched (Suc (next_job_id s)) (activate_job cfg k),
                Saved k [Restart_count, Modified_at]]"
  have "trace (snd (restart cfg s k)) = trace s @ ?new"
    using restart_running [OF assms(1,2,3)] by simp
  moreover have "filter is_deactivate (jobs_of ?new)
               = [DeactivateRulesets (instance_id i) (DEPLOYMENT_TYPE cfg)]"
    by (simp add: activate_job_def)
  moreover have "\<forall>i' \<in> set (j # rest). \<forall>t.
                 DeactivateRulesets (instance_id i') t \<notin> set (jobs_of ?new)"
    using other by (simp add: activate_job_def)
  ultimately show ?thesis by blast
qed

theorem restart_deactivates_first_running_only_witness:
  "find_activation (db (example_state enabled_activation [instance_10, instance_11, instance_12])) 1
     = Some enabled_activation
   \<and> is_enabled enabled_activation
   \<and> running_instances (db (example_state enabled_activation
         [instance_10, instance_11, instance_12])) 1 = [instance_10, instance_12]
   \<and> distinct (map instance_id [instance_10, instance_11, instance_12])
   \<and> (\<exists>new. trace (snd (restart default_settings
                 (example_state enabled_activation [instance_10, instance_11, instance_12]) 1))
               = new
          \<and> filter is_deactivate (jobs_of new) = [DeactivateRulesets 10 ''local'']
          \<and> DeactivateRulesets 12 ''local'' \<notin> set (jobs_of new))"
proof -
  let ?s = "example_state enabled_activation [instance_10, instance_11, instance_12]"
  have h: "find_activation (db ?s) 1 = Some enabled_activation"
    and e: "is_enabled enabled_activation"
    and r: "running_instances (db ?s) 1 = instance_10 # instance_12 # []"
    and d: "distinct (map instance_id (activation_instances (db ?s)))"
    by (simp_all add: example_defs)
  from restart_deactivates_first_running_only [OF h e r d, of default_settings]
  obtain new where
    "trace (snd (restart default_settings ?s 1)) = trace ?s @ new"
    "filter is_deactivate (jobs_of new)
       = [DeactivateRulesets (instance_id instance_10) (DEPLOYMENT_TYPE default_settings)]"
    "\<forall>i' \<in> set [instance_12]. \<forall>t. DeactivateRulesets (instance_id i') t \<notin> set (jobs_of new)"
    by blast
  then have "trace (snd (restart default_settings ?s 1)) = new
          \<and> filter is_deactivate (jobs_of new) = [DeactivateRulesets 10 ''local'']
          \<and> DeactivateRulesets 12 ''local'' \<notin> set (jobs_of new)"
    by (simp add: example_defs)
  with h e r d show ?thesis by (simp add: example_defs)
qed

subsection \<open>Disable\<close>

text \<open>
  C6 as stated fails: \<^verbatim>\<open>disable\<close> hands the queue one \<^verbatim>\<open>deactivate\<close> task
  for the Activation, not one job per running instance. With two RUNNING instances one job
  is dispatched, and with no RUNNING instance one job is dispatched as well.
\<close>

theorem disable_per_instance_counterexample:
  "find_activation (db (example_state enabled_activation [instance_10, instance_12])) 1
     = Some enabled_activation
   \<and> is_enabled enabled_activation
   \<and> running_instances (db (example_state enabled_activation [instance_10, instance_12])) 1
       = [instance_10, instance_12]
   \<and> jobs_of (trace (snd (disable (example_state enabled_activation [instance_10, instance_12]) 1)))
       = [Deactivate 1]
   \<and> running_instances (db (example_state enabled_activation [])) 1 = []
   \<and> jobs_of (trace (snd (disable (example_state enabled_activation []) 1))) = [Deactivate 1]"
  by (simp add: example_defs disable_def get_object_or_404_def save_def delay_def update_row_def)

text \<open>
  C6, amended. Disable on an Activation that is already disabled returns 204 and changes
  nothing. On an enabled Activation it returns 204 and, in this order, saves
  \<open>status = STOPPING\<close> and \<open>is_enabled = False\<close> and then dispatches exactly one
  \<^verbatim>\<open>deactivate\<close> job that carries the id of the Activation, whatever the number of
  its running instances.
\<close>

theorem disable_dispatches_one_deactivate:
  assumes "find_activation (db s) k = Some a"
  shows "(\<not> is_enabled a \<longrightarrow> disable s k = (Inr (Response 204 None), s))
       \<and> (is_enabled a \<longrightarrow>
            disable s k =
              (Inr (Response 204 None),
               \<lparr>db = set_rows k (\<lambda>row. row\<lparr>is_enabled := False, status := STOPPING\<rparr>) (db s),
                trace = trace s @
                  [Saved k [Is_enabled, Status, Modified_at],
                   Dispatched (next_job_id s) (Deactivate k)],
                next_job_id = Suc (next_job_id s)\<rparr>))"
proof (intro conjI impI)
  assume "\<not> is_enabled a"
  with assms show "disable s k = (Inr (Response 204 None), s)"
    by (simp add: disable_def get_object_or_404_def)
next
  assume en: "is_enabled a"
  have k: "id' a = k" using assms by (rule find_activation_id)
  let ?obj = "a\<lparr>status := STOPPING, is_enabled := False\<rparr>"
  have sv: "save ?obj [Is_enabled, Status, Modified_at] s
      = Inr \<lparr>db = set_rows k (fold (write_field ?obj) [Is_enabled, Status, Modified_at]) (db s),
             trace = trace s @ [Saved k [Is_enabled, Status, Modified_at]],
             next_job_id = next_job_id s\<rparr>"
    using assms k by (intro save_set_rows) simp_all
  show "disable s k =
              (Inr (Response 204 None),
               \<lparr>db = set_rows k (\<lambda>row. row\<lparr>is_enabled := False, status := STOPPING\<rparr>) (db s),
                trace = trace s @
                  [Saved k [Is_enabled, Status, Modified_at],
                   Dispatched (next_job_id s) (Deactivate k)],
                next_job_id = Suc (next_job_id s)\<rparr>)"
    using assms en k sv
    by (simp add: disable_def get_object_or_404_def delay_def Let_def o_def)
qed

theorem disable_dispatches_one_deactivate_witness:
  "find_activation (db (example_state enabled_activation [instance_10, instance_12])) 1
     = Some enabled_activation
   \<and> is_enabled enabled_activation
   \<and> disable (example_state enabled_activation [instance_10, instance_12]) 1
       = (Inr (Response 204 None),
          \<lparr>db = example_db (enabled_activation\<lparr>is_enabled := False, status := STOPPING\<rparr>)
                  [instance_10, instance_12],
           trace = [Saved 1 [Is_enabled, Status, Modified_at], Dispatched 0 (Deactivate 1)],
           next_job_id = 1\<rparr>)
   \<and> find_activation (db (example_state idle_activation [instance_10])) 1 = Some idle_activation
   \<and> \<not> is_enabled idle_activation
   \<and> disable (example_state idle_activation [instance_10]) 1
       = (Inr (Response 204 None), example_state idle_activation [instance_10])"
proof -
  have h: "find_activation (db (example_state enabled_activation [instance_10, instance_12])) 1
             = Some enabled_activation"
    and g: "find_activation (db (example_state idle_activation [instance_10])) 1
             = Some idle_activation"
    by (simp_all add: example_defs)
  from disable_dispatches_one_deactivate [OF h] disable_dispatches_one_deactivate [OF g] h g
  show ?thesis by (simp add: example_defs)
qed

subsection \<open>Delete\<close>

text \<open>
  C7 as stated fails: \<^verbatim>\<open>perform_destroy\<close> walks every instance of the Activation,
  whatever its status. An Activation with one RUNNING and one STOPPED instance gets two
  deactivate jobs, not one.
\<close>

theorem destroy_running_only_counterexample:
  "find_activation (db (example_state enabled_activation [instance_10, instance_11])) 1
     = Some enabled_activation
   \<and> running_instances (db (example_state enabled_activation [instance_10, instance_11])) 1
       = [instance_10]
   \<and> jobs_of (trace (snd (destroy default_settings
                (example_state enabled_activation [instance_10, instance_11]) 1)))
       = [DeactivateRulesets 10 ''local'', DeactivateRulesets 11 ''local'']"
  by (simp add: example_defs destroy_def get_object_or_404_def perform_destroy_def
      delete_activation_def delay_def)

text \<open>
  C7, amended. Delete of an existing Activation returns 204 and adds to the trace one
  deactivate job for every instance that belongs to the Activation, whatever the status
  of the instance and in the order of the instances, and after all of them the removal
  of the Activation, which is then gone from the storage. The number of jobs is the
  number of RUNNING instances when every instance of the Activation is RUNNING.
\<close>

theorem destroy_deactivates_every_instance:
  assumes "find_activation (db s) k = Some a"
  shows "(\<exists>s'. destroy cfg s k = (Inr (Response 204 None), s')
            \<and> trace s' = trace s @
                 map (\<lambda>(h, i). Dispatched h
                                 (DeactivateRulesets (instance_id i) (DEPLOYMENT_TYPE cfg)))
                   (enumerate (next_job_id s) (owned_instances (db s) k))
                 @ [Deleted k]
            \<and> find_activation (db s') k = None)
       \<and> ((\<forall>i \<in> set (owned_instances (db s) k). instance_status i = RUNNING)
            \<longrightarrow> owned_instances (db s) k = running_instances (db s) k)"
proof
  have k: "id' a = k" using assms by (rule find_activation_id)
  have "destroy cfg s k = (Inr (Response 204 None), perform_destroy cfg a s)"
    using assms by (simp add: destroy_def get_object_or_404_def)
  moreover have "trace (perform_destroy cfg a s) = trace s @
                 map (\<lambda>(h, i). Dispatched h
                                 (DeactivateRulesets (instance_id i) (DEPLOYMENT_TYPE cfg)))
                   (enumerate (next_job_id s) (owned_instances (db s) k))
                 @ [Deleted k]"
    using k
    by (simp add: perform_destroy_def Let_def fold_delay delete_activation_def
        owned_instances_def)
  moreover have "find_activation (db (perform_destroy cfg a s)) k = None"
    using k
    by (simp add: perform_destroy_def Let_def fold_delay delete_activation_def
        find_activation_removed)
  ultimately show "\<exists>s'. destroy cfg s k = (Inr (Response 204 None), s')
            \<and> trace s' = trace s @
                 map (\<lambda>(h, i). Dispatched h
                                 (DeactivateRulesets (instance_id i) (DEPLOYMENT_TYPE cfg)))
                   (enumerate (next_job_id s) (owned_instances (db s) k))
                 @ [Deleted k]
            \<and> find_activation (db s') k = None"
    by blast
  show "(\<forall>i \<in> set (owned_instances (db s) k). instance_status i = RUNNING)
            \<longrightarrow> owned_instances (db s) k = running_instances (db s) k"
    unfolding owned_instances_def running_instances_def
    by (auto intro: filter_cong)
qed

theorem destroy_deactivates_every_instance_witness:
  "find_activation (db (example_state enabled_activation
       [instance_10, instance_11, instance_13])) 1 = Some enabled_activation
   \<and> trace (snd (destroy default_settings
       (example_state enabled_activation [instance_10, instance_11, instance_13]) 1))
       = [Dispatched 0 (DeactivateRulesets 10 ''local''),
          Dispatched 1 (DeactivateRulesets 11 ''local''),
          Deleted 1]
   \<and> find_activation (db (snd (destroy default_settings
       (example_state enabled_activation [instance_10, instance_11, instance_13]) 1))) 1 = None
   \<and> map instance_status (owned_instances (db (example_state enabled_activation
                     [instance_10, instance_12, instance_13])) 1) = [RUNNING, RUNNING]
   \<and> owned_instances (db (example_state enabled_activation
         [instance_10, instance_12, instance_13])) 1
       = running_instances (db (example_state enabled_activation
           [instance_10, instance_12, instance_13])) 1"
proof -
  let ?s = "example_state enabled_activation [instance_10, instance_11, instance_13]"
  let ?t = "example_state enabled_activation [instance_10, instance_12, instance_13]"
  have h: "find_activation (db ?s) 1 = Some enabled_activation"
    and g: "find_activation (db ?t) 1 = Some enabled_activation"
    by (simp_all add: example_defs)
  have r: "\<forall>i \<in> set (owned_instances (db ?t) 1). instance_status i = RUNNING"
    by (simp add: example_defs)
  from destroy_deactivates_every_instance [OF h, of default_settings]
  obtain s' where "destroy default_settings ?s 1 = (Inr (Response 204 None), s')"
    and "trace s' = trace ?s @
           map (\<lambda>(h, i). Dispatched h
                  (DeactivateRulesets (instance_id i) (DEPLOYMENT_TYPE default_settings)))
             (enumerate (next_job_id ?s) (owned_instances (db ?s) 1))
           @ [Deleted 1]"
    and "find_activation (db s') 1 = None"
    by blast
  then have "trace (snd (destroy default_settings ?s 1))
       = [Dispatched 0 (DeactivateRulesets 10 ''local''),
          Dispatched 1 (DeactivateRulesets 11 ''local''),
          Deleted 1]
     \<and> find_activation (db (snd (destroy default_settings ?s 1))) 1 = None"
    by (simp add: example_defs)
  moreover have "owned_instances (db ?t) 1 = running_instances (db ?t) 1"
    using destroy_deactivates_every_instance [OF g, of default_settings] r by blast
  moreover have "map instance_status (owned_instances (db ?t) 1) = [RUNNING, RUNNING]"
    by (simp add: example_defs)
  ultimately show ?thesis using h by blast
qed

subsection \<open>The conflict resolver names the first missing reference\<close>

text \<open>
  C8. The resolver checks decision_environment, project, rulebook, extra_var in this
  order: it raises Unprocessable with the capitalised entity name and the given id for
  the first reference that is given and has no row, and the generic
  Unprocessable "Integrity error." when every given reference has a row.
\<close>

theorem conflict_resolver_first_missing:
  "(reference_ok (decision_environments d) (vd_decision_environment_id a) \<and>
    reference_ok (projects d) (vd_project_id a) \<and>
    reference_ok (rulebooks d) (vd_rulebook_id a) \<and>
    reference_ok (extra_vars d) (vd_extra_var_id a)
    \<longrightarrow> handle_activation_create_conflict d a = Unprocessable ''Integrity error.'')
   \<and> (\<forall>i. vd_decision_environment_id a = Some i \<and> \<not> pk_exists (decision_environments d) i
    \<longrightarrow> handle_activation_create_conflict d a = does_not_exist ''Decision_environment'' i)
   \<and> (\<forall>i. reference_ok (decision_environments d) (vd_decision_environment_id a) \<and>
        vd_project_id a = Some i \<and> \<not> pk_exists (projects d) i
    \<longrightarrow> handle_activation_create_conflict d a = does_not_exist ''Project'' i)
   \<and> (\<forall>i. reference_ok (decision_environments d) (vd_decision_environment_id a) \<and>
        reference_ok (projects d) (vd_project_id a) \<and>
        vd_rulebook_id a = Some i \<and> \<not> pk_exists (rulebooks d) i
    \<longrightarrow> handle_activation_create_conflict d a = does_not_exist ''Rulebook'' i)
   \<and> (\<forall>i. reference_ok (decision_environments d) (vd_decision_environment_id a) \<and>
        reference_ok (projects d) (vd_project_id a) \<and>
        reference_ok (rulebooks d) (vd_rulebook_id a) \<and>
        vd_extra_var_id a = Some i \<and> \<not> pk_exists (extra_vars d) i
    \<longrightarrow> handle_activation_create_conflict d a = does_not_exist ''Extra_var'' i)"
  unfolding handle_activation_create_conflict_def activation_dependent_objects_def
    reference_ok_def does_not_exist_def
  by (cases "vd_decision_environment_id a"; cases "vd_project_id a";
      cases "vd_rulebook_id a"; cases "vd_extra_var_id a")
     (simp_all add: capitalize_names del: capitalize.simps)

text \<open>
  One request for each of the five outcomes; the fourth carries a negative id, and in
  the second both the project and the rulebook are missing.
\<close>

theorem conflict_resolver_first_missing_witness:
  "handle_activation_create_conflict (example_db idle_activation [])
       (example_request True (Some 9) (Some 8) (Some 2) None)
     = Unprocessable ''Decision_environment with ID=9 does not exist.''
   \<and> handle_activation_create_conflict (example_db idle_activation [])
       (example_request True (Some 1) (Some 8) (Some 7) None)
     = Unprocessable ''Project with ID=8 does not exist.''
   \<and> handle_activation_create_conflict (example_db idle_activation [])
       (example_request True None (Some 4) (Some 7) (Some 5))
     = Unprocessable ''Rulebook with ID=7 does not exist.''
   \<and> handle_activation_create_conflict (example_db idle_activation [])
       (example_request True (Some 1) None (Some 2) (Some (- 5)))
     = Unprocessable ''Extra_var with ID=-5 does not exist.''
   \<and> handle_activation_create_conflict (example_db idle_activation [])
       (example_request True (Some 1) (Some 4) None (Some 6))
     = Unprocessable ''Integrity error.''"
proof -
  have str: "str_int 9 = ''9''" "str_int 8 = ''8''" "str_int 7 = ''7''" "str_int (- 5) = ''-5''"
    by code_simp+
  show ?thesis
    using
      conflict_resolver_first_missing [of "example_db idle_activation []"
        "example_request True (Some 9) (Some 8) (Some 2) None"]
      conflict_resolver_first_missing [of "example_db idle_activation []"
        "example_request True (Some 1) (Some 8) (Some 7) None"]
      conflict_resolver_first_missing [of "example_db idle_activation []"
        "example_request True None (Some 4) (Some 7) (Some 5)"]
      conflict_resolver_first_missing [of "example_db idle_activation []"
        "example_request True (Some 1) None (Some 2) (Some (- 5))"]
      conflict_resolver_first_missing [of "example_db idle_activation []"
        "example_request True (Some 1) (Some 4) None (Some 6)"]
    by (simp add: example_db_def example_request_def reference_ok_def pk_exists_def
        does_not_exist_def str)
qed

subsection \<open>Retrieve\<close>

lemma rules_count_loop_Inr:
  "rules_count_loop sts rc rfc = Inr r \<longleftrightarrow>
     (\<forall>st \<in> set sts. st ''numberOfRules'' \<noteq> None \<and> st ''rulesTriggered'' \<noteq> None) \<and>
     r = (rc + (\<Sum>st\<leftarrow>sts. the (st ''numberOfRules'')),
          rfc + (\<Sum>st\<leftarrow>sts. the (st ''rulesTriggered'')))"
  by (induction sts arbitrary: rc rfc) (auto split: option.splits)

text \<open>
  C9. Every response of retrieve is a 200 whose \<open>rules_count\<close> is the sum of
  \<open>numberOfRules\<close> and whose \<open>rules_fired_count\<close> is the sum of \<open>rulesTriggered\<close>
  over all entries of the \<open>ruleset_stats\<close> of the Activation. Retrieve does respond
  when the referenced objects resolve and every entry has both keys. For the empty
  \<open>ruleset_stats\<close> both counts are 0.
\<close>

theorem retrieve_rule_counts:
  assumes "find_activation (db s) k = Some a"
  shows "(\<forall>rsp. retrieve s k = Inr rsp \<longrightarrow>
            (\<exists>rd. rsp = Response 200 (Some rd) \<and>
               rules_count rd = (\<Sum>(n, st)\<leftarrow>ruleset_stats a. the (st ''numberOfRules'')) \<and>
               rules_fired_count rd
                 = (\<Sum>(n, st)\<leftarrow>ruleset_stats a. the (st ''rulesTriggered''))))
       \<and> (\<forall>objs. get_activation_dependent_objects (db s) a = Inr objs \<and>
              (\<forall>(n, st) \<in> set (ruleset_stats a).
                  st ''numberOfRules'' \<noteq> None \<and> st ''rulesTriggered'' \<noteq> None)
            \<longrightarrow> (\<exists>rd. retrieve s k = Inr (Response 200 (Some rd))))
       \<and> get_rules_count [] = Inr (0, 0)"
proof (intro conjI allI impI)
  show "get_rules_count [] = Inr (0, 0)"
    by (simp add: get_rules_count_def)
next
  fix rsp
  assume r: "retrieve s k = Inr rsp"
  then obtain objs rc rfc where
    o: "get_activation_dependent_objects (db s) a = Inr objs"
    and c: "get_rules_count (ruleset_stats (serialized objs)) = Inr (rc, rfc)"
    and rsp: "rsp = Response 200 (Some \<lparr>objects = objs, rules_count = rc,
                                       rules_fired_count = rfc\<rparr>)"
    using assms
    by (auto simp: retrieve_def get_object_or_404_def split: sum.splits)
  have "serialized objs = a" using o by (rule dependent_objects_serialized)
  with c have "rc = (\<Sum>st\<leftarrow>map snd (ruleset_stats a). the (st ''numberOfRules''))"
    and "rfc = (\<Sum>st\<leftarrow>map snd (ruleset_stats a). the (st ''rulesTriggered''))"
    by (simp_all add: get_rules_count_def rules_count_loop_Inr)
  then show "\<exists>rd. rsp = Response 200 (Some rd) \<and>
               rules_count rd = (\<Sum>(n, st)\<leftarrow>ruleset_stats a. the (st ''numberOfRules'')) \<and>
               rules_fired_count rd
                 = (\<Sum>(n, st)\<leftarrow>ruleset_stats a. the (st ''rulesTriggered''))"
    using rsp by (simp add: comp_def case_prod_unfold)
next
  fix objs
  assume h: "get_activation_dependent_objects (db s) a = Inr objs \<and>
              (\<forall>(n, st) \<in> set (ruleset_stats a).
                  st ''numberOfRules'' \<noteq> None \<and> st ''rulesTriggered'' \<noteq> None)"
  then have "serialized objs = a" using dependent_objects_serialized by blast
  moreover have "\<exists>r. rules_count_loop (map snd (ruleset_stats a)) 0 0 = Inr r"
    using h by (subst rules_count_loop_Inr) auto
  ultimately show "\<exists>rd. retrieve s k = Inr (Response 200 (Some rd))"
    using assms h
    by (auto simp: retrieve_def get_object_or_404_def get_rules_count_def)
qed

theorem retrieve_rule_counts_witness:
  "find_activation (db (example_state idle_activation [instance_10, instance_11])) 1
     = Some idle_activation
   \<and> map (\<lambda>(n, st). (st ''numberOfRules'', st ''rulesTriggered''))
         (ruleset_stats idle_activation) = [(Some 3, Some 1), (Some 4, Some 0)]
   \<and> (\<exists>rd. retrieve (example_state idle_activation [instance_10, instance_11]) 1
              = Inr (Response 200 (Some rd))
          \<and> rules_count rd = 7 \<and> rules_fired_count rd = 1)"
proof -
  let ?s = "example_state idle_activation [instance_10, instance_11]"
  have h: "find_activation (db ?s) 1 = Some idle_activation"
    by (simp add: example_defs)
  have keys: "\<forall>(n, st) \<in> set (ruleset_stats idle_activation).
         st ''numberOfRules'' \<noteq> None \<and> st ''rulesTriggered'' \<noteq> None"
    by (simp add: idle_activation_def)
  have "\<exists>objs. get_activation_dependent_objects (db ?s) idle_activation = Inr objs"
    by (simp add: get_activation_dependent_objects_def get_if_def objects_get_def Let_def
        example_defs)
  with retrieve_rule_counts [OF h] keys
  obtain rd where rd: "retrieve ?s 1 = Inr (Response 200 (Some rd))"
    by blast
  with retrieve_rule_counts [OF h]
  have "rules_count rd = (\<Sum>(n, st)\<leftarrow>ruleset_stats idle_activation. the (st ''numberOfRules''))"
    and "rules_fired_count rd
           = (\<Sum>(n, st)\<leftarrow>ruleset_stats idle_activation. the (st ''rulesTriggered''))"
    by auto
  then have "rules_count rd = 7 \<and> rules_fired_count rd = 1"
    by (simp add: idle_activation_def)
  moreover have "map (\<lambda>(n, st). (st ''numberOfRules'', st ''rulesTriggered''))
         (ruleset_stats idle_activation) = [(Some 3, Some 1), (Some 4, Some 0)]"
    by (simp add: idle_activation_def)
  ultimately show ?thesis using h rd by blast
qed

end
